theory Spec2Isabelle
  imports Complex_Main
begin

section \<open>RippleSim: the wave-equation height field (src/Pond.tsx)\<close>

text \<open>
  GLSL and JavaScript numbers are modelled as exact reals.  A \<open>vec2\<close> is a pair, a
  \<open>sampler2D\<close> is the red channel of \<open>texture2D(tex, uv)\<close> as a function of the
  coordinate, and a render target is the red channel of its texels, column \<open>i\<close> and
  row \<open>j\<close>.
\<close>

type_synonym vec2 = "real \<times> real"
type_synonym sampler2D = "vec2 \<Rightarrow> real"
type_synonym target = "nat \<Rightarrow> nat \<Rightarrow> real"

definition decodeH :: "real \<Rightarrow> real" where
  "decodeH r = r * 2.0 - 1.0"

definition encodeH :: "real \<Rightarrow> real" where
  "encodeH h = h * 0.5 + 0.5"

text \<open>GLSL \<open>clamp(x, lo, hi) = min(max(x, lo), hi)\<close> and \<open>distance\<close> on \<open>vec2\<close>.\<close>

definition clamp :: "real \<Rightarrow> real \<Rightarrow> real \<Rightarrow> real" where
  "clamp x lo hi = min (max x lo) hi"

definition distance :: "vec2 \<Rightarrow> vec2 \<Rightarrow> real" where
  "distance a b = sqrt ((fst a - fst b)\<^sup>2 + (snd a - snd b)\<^sup>2)"

definition sampleH :: "sampler2D \<Rightarrow> vec2 \<Rightarrow> real" where
  "sampleH tex uv = decodeH (tex uv)"

record sim_uniforms =
  uPrev :: sampler2D
  uPrevPrev :: sampler2D
  uTexel :: vec2
  uMouse :: vec2
  uImpulse :: real
  uImpulseRadius :: real
  uC :: real
  uDamping :: real
  uStrength :: real

text \<open>
  The fragment shader of the simulation material, statement by statement; the result is
  the red channel of \<open>gl_FragColor\<close>.
\<close>

definition fragmentShader :: "sim_uniforms \<Rightarrow> vec2 \<Rightarrow> real" where
  "fragmentShader U vUv =
    (let h = sampleH (uPrev U) vUv;
         h1 = sampleH (uPrevPrev U) vUv;
         l = 0.0;
         l = l + sampleH (uPrev U) (fst vUv + fst (uTexel U), snd vUv + 0.0);
         l = l + sampleH (uPrev U) (fst vUv + - fst (uTexel U), snd vUv + 0.0);
         l = l + sampleH (uPrev U) (fst vUv + 0.0, snd vUv + snd (uTexel U));
         l = l + sampleH (uPrev U) (fst vUv + 0.0, snd vUv + - snd (uTexel U));
         l = l - 4.0 * h;
         next = (2.0 * h - h1) + (uC U * uC U) * l;
         vel = h - h1;
         next = next - uDamping U * vel;
         d = distance vUv (uMouse U);
         splat = exp (- (d * d) / (uImpulseRadius U * uImpulseRadius U));
         next = next + splat * uImpulse U * uStrength U;
         next = clamp next (- 1.0) 1.0
     in encodeH next)"

text \<open>
  Sampling a \<open>simSize \<times> simSize\<close> target.  The targets are created with the default
  clamp-to-edge wrapping, and every coordinate the simulation samples is a texel centre
  (the fragment centre, or one texel to its side), where linear filtering returns that
  texel: the sampled texel is the one containing the coordinate, its index clamped to
  the grid.
\<close>

definition texel :: "nat \<Rightarrow> real \<Rightarrow> nat" where
  "texel simSize u = nat (max 0 (min (int simSize - 1) \<lfloor>u * real simSize\<rfloor>))"

definition texture2D :: "nat \<Rightarrow> target \<Rightarrow> sampler2D" where
  "texture2D simSize buf uv = buf (texel simSize (fst uv)) (texel simSize (snd uv))"

text \<open>The fragment of texel \<open>(i, j)\<close> is shaded at the texel's centre.\<close>

definition cell_uv :: "nat \<Rightarrow> nat \<Rightarrow> nat \<Rightarrow> vec2" where
  "cell_uv simSize i j = ((real i + 0.5) / real simSize, (real j + 0.5) / real simSize)"

text \<open>\<open>gl.clear\<close> with the clear colour's red channel, and \<open>gl.render\<close> of the
  full-screen quad, which shades every texel of the bound target.\<close>

definition clear :: "real \<Rightarrow> target" where
  "clear c = (\<lambda>i j. c)"

definition render :: "nat \<Rightarrow> sim_uniforms \<Rightarrow> target \<Rightarrow> target" where
  "render simSize U buf =
    (\<lambda>i j. if i < simSize \<and> j < simSize then fragmentShader U (cell_uv simSize i j)
           else buf i j)"

text \<open>\<open>THREE.MathUtils.lerp\<close>.\<close>

definition lerp :: "real \<Rightarrow> real \<Rightarrow> real \<Rightarrow> real" where
  "lerp x y t = (1 - t) * x + t * y"

definition baseRadius :: real where
  "baseRadius = 0.02"

text \<open>
  The refs and state of one mounted \<open>RippleSim\<close>.  \<open>rts\<close> are the three render targets;
  \<open>texture\<close> is the value last passed to \<open>onTexture\<close>: the index of the target whose
  texture is exposed, or \<open>None\<close> for \<open>null\<close>.
\<close>

record sim_state =
  rts :: "target list"
  prevIdx :: nat
  prevPrevIdx :: nat
  writeIdx :: nat
  mouseUv :: vec2
  lastMouse :: vec2
  lastT :: real
  impulse :: real
  impulseRadius :: real
  texture :: "nat option"

text \<open>
  The init effect binds each of the three targets in turn and clears it to the colour
  \<open>(0.5, 0, 0)\<close>, whatever the freshly allocated target held.
\<close>

definition initEffect :: "target list \<Rightarrow> target list" where
  "initEffect targets = map (\<lambda>rt. clear 0.5) targets"

text \<open>
  The state after mounting with the freshly allocated targets \<open>rtA\<close>, \<open>rtB\<close>, \<open>rtC\<close>;
  \<open>t0\<close> is \<open>performance.now()\<close> at mount.
\<close>

definition init_sim :: "real \<Rightarrow> target \<Rightarrow> target \<Rightarrow> target \<Rightarrow> sim_state" where
  "init_sim t0 rtA rtB rtC =
    \<lparr> rts = initEffect [rtA, rtB, rtC],
      prevIdx = 0, prevPrevIdx = 1, writeIdx = 2,
      mouseUv = (- 10, - 10), lastMouse = (0, 0), lastT = t0,
      impulse = 0, impulseRadius = baseRadius, texture = None \<rparr>"

text \<open>The per-frame callback of \<open>RippleSim\<close>.\<close>

definition useFrame :: "nat \<Rightarrow> real \<Rightarrow> bool \<Rightarrow> sim_state \<Rightarrow> sim_state" where
  "useFrame simSize strength enabled st =
    (if \<not> enabled then st\<lparr>texture := None\<rparr>
     else
       let prev = rts st ! prevIdx st;
           prevPrev = rts st ! prevPrevIdx st;
           U = \<lparr> uPrev = texture2D simSize prev,
                 uPrevPrev = texture2D simSize prevPrev,
                 uTexel = (1 / real simSize, 1 / real simSize),
                 uMouse = mouseUv st,
                 uImpulse = impulse st,
                 uImpulseRadius = impulseRadius st,
                 uC = 0.35, uDamping = 0.020, uStrength = strength \<rparr>;
           st = st\<lparr>impulse := impulse st * 0.85\<rparr>;
           st = st\<lparr>impulseRadius := lerp (impulseRadius st) baseRadius 0.18\<rparr>;
           st = st\<lparr>rts := (rts st)[writeIdx st := render simSize U (clear 0.5)]\<rparr>;
           oldPrevIdx = prevIdx st;
           oldPrevPrevIdx = prevPrevIdx st;
           st = st\<lparr>prevPrevIdx := oldPrevIdx\<rparr>;
           st = st\<lparr>prevIdx := writeIdx st\<rparr>;
           st = st\<lparr>writeIdx := oldPrevPrevIdx\<rparr>
       in st\<lparr>texture := Some (prevIdx st)\<rparr>)"

text \<open>
  The pointer handlers; \<open>uv\<close> is the value of \<open>getUvFromEvent(e)\<close> and \<open>now\<close> the value
  of \<open>performance.now()\<close> in the handler.
\<close>

definition onMove :: "bool \<Rightarrow> vec2 \<Rightarrow> real \<Rightarrow> sim_state \<Rightarrow> sim_state" where
  "onMove enabled uv now st =
    (if \<not> enabled then st
     else
       let dt = max 1 (now - lastT st);
           dx = fst uv - fst (lastMouse st);
           dy = snd uv - snd (lastMouse st);
           speed = sqrt (dx * dx + dy * dy) / (dt / 1000)
       in st\<lparr>mouseUv := uv, lastMouse := uv, lastT := now,
              impulse := min 1.0 (speed * 0.35)\<rparr>)"

definition onDown :: "bool \<Rightarrow> vec2 \<Rightarrow> real \<Rightarrow> sim_state \<Rightarrow> sim_state" where
  "onDown enabled uv now st =
    (if \<not> enabled then st
     else st\<lparr>mouseUv := uv, impulse := max (impulse st) 1.25, impulseRadius := 0.04,
             lastMouse := uv, lastT := now\<rparr>)"

datatype sim_event = Frame bool | PointerMove bool vec2 real | PointerDown bool vec2 real

fun sim_step :: "nat \<Rightarrow> real \<Rightarrow> sim_state \<Rightarrow> sim_event \<Rightarrow> sim_state" where
  "sim_step simSize strength st (Frame enabled) = useFrame simSize strength enabled st"
| "sim_step simSize strength st (PointerMove enabled uv now) = onMove enabled uv now st"
| "sim_step simSize strength st (PointerDown enabled uv now) = onDown enabled uv now st"

definition sim_run :: "nat \<Rightarrow> real \<Rightarrow> sim_state \<Rightarrow> sim_event list \<Rightarrow> sim_state" where
  "sim_run simSize strength st evs = foldl (sim_step simSize strength) st evs"

subsection \<open>The wave step as the specification words it\<close>

text \<open>
  Stored values decode to heights by \<open>h = 2r - 1\<close>; the Laplacian is the sum of the four
  neighbour heights minus four times the centre, a neighbour beyond the edge being the
  edge texel itself; the impulse falls off as a Gaussian of the distance to the pointer.
\<close>

definition spec_height :: "target \<Rightarrow> nat \<Rightarrow> nat \<Rightarrow> real" where
  "spec_height buf i j = 2 * buf i j - 1"

definition spec_laplacian :: "nat \<Rightarrow> target \<Rightarrow> nat \<Rightarrow> nat \<Rightarrow> real" where
  "spec_laplacian simSize buf i j =
     spec_height buf (min (i + 1) (simSize - 1)) j + spec_height buf (i - 1) j
     + spec_height buf i (min (j + 1) (simSize - 1)) + spec_height buf i (j - 1)
     - 4 * spec_height buf i j"

definition spec_gaussian :: "real \<Rightarrow> real \<Rightarrow> real" where
  "spec_gaussian d radius = exp (- (d * d) / (radius * radius))"

definition spec_next ::
  "nat \<Rightarrow> real \<Rightarrow> target \<Rightarrow> target \<Rightarrow> vec2 \<Rightarrow> real \<Rightarrow> real \<Rightarrow> nat \<Rightarrow> nat \<Rightarrow> real" where
  "spec_next simSize globalStrength current previous position magnitude radius i j =
     clamp
       (2 * spec_height current i j - spec_height previous i j
        + 0.35\<^sup>2 * spec_laplacian simSize current i j
        - 0.02 * (spec_height current i j - spec_height previous i j)
        + spec_gaussian (distance (cell_uv simSize i j) position) radius
          * magnitude * globalStrength)
       (- 1) 1"

text \<open>Total energy of a height field: the sum over all cells of the squared height.\<close>

definition energy :: "nat \<Rightarrow> target \<Rightarrow> real" where
  "energy simSize buf = (\<Sum>i<simSize. \<Sum>j<simSize. (spec_height buf i j)\<^sup>2)"

text \<open>
  The three role indices are in range and pairwise different, and there are three
  targets.
\<close>

definition roles_ok :: "sim_state \<Rightarrow> bool" where
  "roles_ok st \<longleftrightarrow>
     length (rts st) = 3 \<and> prevIdx st < 3 \<and> prevPrevIdx st < 3 \<and> writeIdx st < 3
     \<and> distinct [prevIdx st, prevPrevIdx st, writeIdx st]"

text \<open>
  A run in which, besides the events of the component, the pointer refs may be
  overwritten between frames by an impulse of any position, magnitude and radius.
\<close>

datatype sim_input = Event sim_event | Impulse vec2 real real

fun sim_input_step :: "nat \<Rightarrow> real \<Rightarrow> sim_state \<Rightarrow> sim_input \<Rightarrow> sim_state" where
  "sim_input_step simSize strength st (Event ev) = sim_step simSize strength st ev"
| "sim_input_step simSize strength st (Impulse position magnitude radius) =
     st\<lparr>mouseUv := position, impulse := magnitude, impulseRadius := radius\<rparr>"

text \<open>Every cell of every target decodes to a height in \<open>[-1, 1]\<close>.\<close>

definition heights_bounded :: "nat \<Rightarrow> sim_state \<Rightarrow> bool" where
  "heights_bounded simSize st \<longleftrightarrow>
     (\<forall>buf \<in> set (rts st). \<forall>i<simSize. \<forall>j<simSize.
        - 1 \<le> spec_height buf i j \<and> spec_height buf i j \<le> 1)"

subsection \<open>Example runs and states\<close>

text \<open>
  A run at the configured grid size and strength: after mounting, the pointer moves to
  \<open>(3/5, 4/5)\<close> one second later (an impulse of magnitude \<open>0.35\<close>) and a frame is
  rendered; then a pointer event at the same position resets the magnitude to \<open>0\<close>,
  and another frame is rendered.
\<close>

definition cx_stroke :: sim_state where
  "cx_stroke = sim_run 512 0.9 (init_sim 0 (clear 0) (clear 0) (clear 0))
                 [PointerMove True (3/5, 4/5) 1000, Frame True]"

definition cx_rest :: sim_state where
  "cx_rest = sim_run 512 0.9 cx_stroke [PointerMove True (3/5, 4/5) 1016]"

definition cx_after :: sim_state where
  "cx_after = sim_run 512 0.9 cx_rest [Frame True]"

text \<open>A state whose current field is uniformly at height \<open>0.1\<close> above a flat previous
  field, with no impulse.\<close>

definition moving_state :: sim_state where
  "moving_state =
    \<lparr> rts = [clear 0.55, clear 0.5, clear 0.5],
      prevIdx = 0, prevPrevIdx = 1, writeIdx = 2,
      mouseUv = (- 10, - 10), lastMouse = (0, 0), lastT = 0,
      impulse = 0, impulseRadius = baseRadius, texture = Some 0 \<rparr>"

section \<open>PondScene: the level transition (src/Pond.tsx)\<close>

datatype PondPhase = Off | Filling | On | Draining

text \<open>
  The state of one mounted \<open>PondScene\<close>: the React state \<open>level\<close>, the ref
  \<open>levelRef.current\<close>, the constants captured by the transition effect that ran last
  (its \<open>phase\<close>, \<open>from\<close>, \<open>to\<close>, \<open>dur\<close> and \<open>start\<close>), whether an animation-frame
  callback is pending (\<open>raf\<close>), and the number of times \<open>onDrained\<close> has been invoked.
\<close>

record scene_state =
  level :: real
  levelRef :: real
  phase :: PondPhase
  anim_from :: real
  anim_to :: real
  anim_dur :: real
  anim_start :: real
  raf :: bool
  drained :: nat

definition easeInOutCubic :: "real \<Rightarrow> real" where
  "easeInOutCubic t = (if t < 0.5 then 4 * t * t * t else 1 - (- 2 * t + 2) ^ 3 / 2)"

text \<open>The effect on \<open>[level]\<close>: it runs after each commit that changed \<open>level\<close>.\<close>

definition levelEffect :: "scene_state \<Rightarrow> scene_state" where
  "levelEffect st = st\<lparr>levelRef := level st\<rparr>"

text \<open>
  The effect on \<open>[phase, onDrained]\<close>, run at time \<open>now\<close> with the prop \<open>phase = ph\<close>:
  the cleanup of the previous run has cancelled its pending frame, and the body
  captures its constants and requests a frame.
\<close>

definition phaseEffect :: "PondPhase \<Rightarrow> real \<Rightarrow> scene_state \<Rightarrow> scene_state" where
  "phaseEffect ph now st =
     st\<lparr>phase := ph,
        anim_from := levelRef st,
        anim_to := (if ph = Draining then 0 else 1),
        anim_dur := (if ph = Draining then 500 else 650),
        anim_start := now,
        raf := True\<rparr>"

text \<open>The callback \<open>tick(now)\<close> of the transition effect.\<close>

definition tick :: "real \<Rightarrow> scene_state \<Rightarrow> scene_state" where
  "tick now st =
    (let p = min 1 ((now - anim_start st) / anim_dur st);
         e = easeInOutCubic p;
         v = anim_from st + (anim_to st - anim_from st) * e;
         st = st\<lparr>level := v\<rparr>
     in if p < 1 then st\<lparr>raf := True\<rparr>
        else
          let st = st\<lparr>raf := False, level := anim_to st\<rparr>
          in if phase st = Draining \<and> anim_to st = 0 then st\<lparr>drained := drained st + 1\<rparr>
             else st)"

text \<open>
  Mounting with the prop \<open>phase = ph\<close> at time \<open>now\<close>: the initial state, then the two
  effects in the order the component declares them.
\<close>

definition mount :: "PondPhase \<Rightarrow> real \<Rightarrow> scene_state" where
  "mount ph now =
     phaseEffect ph now
       (levelEffect
          \<lparr> level = (if ph = On then 1 else 0), levelRef = (if ph = On then 1 else 0),
            phase = ph, anim_from = 0, anim_to = 0, anim_dur = 0, anim_start = 0,
            raf = False, drained = 0 \<rparr>)"

text \<open>
  The events of a mounted scene.  \<open>PhaseEffect ph now\<close>: a commit in which \<open>phase\<close> (now
  \<open>ph\<close>) or \<open>onDrained\<close> changed, so that the \<open>[level]\<close> effect, declared first, and the
  transition effect run.  \<open>AnimFrame now\<close>: the browser delivers an animation frame; the
  pending callback, if any, runs, and the commit that follows runs the \<open>[level]\<close> effect.
\<close>

datatype scene_event = PhaseEffect PondPhase real | AnimFrame real

fun scene_step :: "scene_state \<Rightarrow> scene_event \<Rightarrow> scene_state" where
  "scene_step st (PhaseEffect ph now) = phaseEffect ph now (levelEffect st)"
| "scene_step st (AnimFrame now) = (if raf st then levelEffect (tick now st) else st)"

definition scene_run :: "scene_state \<Rightarrow> scene_event list \<Rightarrow> scene_state" where
  "scene_run st evs = foldl scene_step st evs"

section \<open>LeafSystem: the floating sprites (src/Pond.tsx)\<close>

record Leaf =
  leaf_id :: nat
  leaf_x :: real
  leaf_y :: real
  leaf_s :: real
  leaf_r :: real
  leaf_vx :: real
  leaf_wobble :: real

text \<open>
  The refs of one mounted \<open>LeafSystem\<close>: \<open>leavesRef.current\<close>, \<open>idRef.current\<close>,
  \<open>nextSpawnAt.current\<close>, and the \<open>count\<close> of the instanced mesh (the number of
  instances drawn).
\<close>

record leaf_state =
  leaves :: "Leaf list"
  idRef :: nat
  nextSpawnAt :: real
  meshCount :: nat

text \<open>The five values \<open>Math.random()\<close> returns during one \<open>spawnLeaf\<close>, in call order.\<close>

record spawn_rnd =
  rnd_s :: real
  rnd_y :: real
  rnd_vx :: real
  rnd_r :: real
  rnd_wobble :: real

text \<open>\<open>maxLeaves\<close> is a count and is modelled as a natural number; \<open>w\<close> and \<open>h\<close> are
  the viewport width and height.\<close>

definition spawnLeaf :: "nat \<Rightarrow> real \<Rightarrow> real \<Rightarrow> spawn_rnd \<Rightarrow> leaf_state \<Rightarrow> leaf_state" where
  "spawnLeaf maxLeaves w h rnd st =
    (let margin = 0.65 in
     if length (leaves st) \<ge> nat \<lfloor>real maxLeaves * 0.7\<rfloor>
        \<and> list_ex (\<lambda>l. leaf_x l < - w / 2 + 1.6) (leaves st)
     then st
     else
       let s = lerp 0.13 0.26 (rnd_s rnd);
           y = lerp (- h / 2 + 0.6) (h / 2 - 0.6) (rnd_y rnd);
           vx = lerp 0.10 0.22 (rnd_vx rnd)
       in st\<lparr>leaves := leaves st @
                 [\<lparr> leaf_id = idRef st, leaf_x = - w / 2 - margin, leaf_y = y, leaf_s = s,
                    leaf_r = lerp (- pi) pi (rnd_r rnd), leaf_vx = vx,
                    leaf_wobble = rnd_wobble rnd * pi * 2 \<rparr>],
              idRef := idRef st + 1\<rparr>)"

text \<open>
  What one frame receives: the props \<open>enabled\<close>, whether the mesh, material and texture
  exist, the clock, the frame time, the viewport, and the random values of the calls the
  frame may make.
\<close>

record frame_in =
  f_enabled :: bool
  f_ready :: bool
  f_now :: real
  f_dt :: real
  f_w :: real
  f_h :: real
  rnd_firstDelay :: real
  rnd_forced :: spawn_rnd
  rnd_timed :: spawn_rnd
  rnd_interval :: real

definition moveLeaf :: "real \<Rightarrow> real \<Rightarrow> Leaf \<Rightarrow> Leaf" where
  "moveLeaf now dt l =
     l\<lparr>leaf_x := leaf_x l + leaf_vx l * dt,
       leaf_y := leaf_y l + sin (now * 0.35 + leaf_wobble l) * 0.03 * dt * 60.0,
       leaf_r := leaf_r l + sin (now * 0.25 + leaf_wobble l) * 0.004 * dt * 60.0\<rparr>"

text \<open>The per-frame callback of \<open>LeafSystem\<close>.\<close>

definition leafFrame :: "nat \<Rightarrow> real \<times> real \<Rightarrow> frame_in \<Rightarrow> leaf_state \<Rightarrow> leaf_state" where
  "leafFrame maxLeaves spawnEvery f st =
    (if \<not> f_enabled f \<or> \<not> f_ready f then st
     else
       let now = f_now f;
           st = (if nextSpawnAt st = 0 then
                   let firstDelay = lerp 0.2 0.8 (rnd_firstDelay f);
                       st = st\<lparr>nextSpawnAt := now + firstDelay\<rparr>
                   in if length (leaves st) = 0
                      then spawnLeaf maxLeaves (f_w f) (f_h f) (rnd_forced f) st
                      else st
                 else st);
           st = (if now \<ge> nextSpawnAt st \<and> length (leaves st) < maxLeaves then
                   (spawnLeaf maxLeaves (f_w f) (f_h f) (rnd_timed f) st)
                     \<lparr>nextSpawnAt :=
                        now + lerp (fst spawnEvery) (snd spawnEvery) (rnd_interval f)\<rparr>
                 else st);
           st = st\<lparr>leaves := map (moveLeaf now (f_dt f)) (leaves st)\<rparr>;
           w = f_w f;
           h = f_h f;
           margin = 0.8;
           st = st\<lparr>leaves :=
                   filter (\<lambda>l. leaf_x l < w / 2 + margin \<and> leaf_y l > - h / 2 - margin
                               \<and> leaf_y l < h / 2 + margin) (leaves st)\<rparr>;
           count = min (length (leaves st)) maxLeaves
       in st\<lparr>meshCount := count\<rparr>)"

text \<open>The reset effect on \<open>[enabled]\<close>.\<close>

definition resetEffect :: "bool \<Rightarrow> leaf_state \<Rightarrow> leaf_state" where
  "resetEffect enabled st = (if enabled then st else st\<lparr>leaves := [], nextSpawnAt := 0\<rparr>)"

text \<open>The refs at mount; the instanced mesh is constructed with \<open>count = maxLeaves\<close>.\<close>

definition leaf_init :: "nat \<Rightarrow> leaf_state" where
  "leaf_init maxLeaves = \<lparr> leaves = [], idRef = 1, nextSpawnAt = 0, meshCount = maxLeaves \<rparr>"

datatype leaf_event = LeafFrame frame_in | EnabledEffect bool

fun leaf_step :: "nat \<Rightarrow> real \<times> real \<Rightarrow> leaf_state \<Rightarrow> leaf_event \<Rightarrow> leaf_state" where
  "leaf_step maxLeaves spawnEvery st (LeafFrame f) = leafFrame maxLeaves spawnEvery f st"
| "leaf_step maxLeaves spawnEvery st (EnabledEffect enabled) = resetEffect enabled st"

definition leaf_run :: "nat \<Rightarrow> real \<times> real \<Rightarrow> leaf_state \<Rightarrow> leaf_event list \<Rightarrow> leaf_state" where
  "leaf_run maxLeaves spawnEvery st evs = foldl (leaf_step maxLeaves spawnEvery) st evs"

text \<open>An enabled first frame on a 19.2 by 10.8 viewport, every random value \<open>0\<close>.\<close>

definition frame0 :: frame_in where
  "frame0 =
    \<lparr> f_enabled = True, f_ready = True, f_now = 0, f_dt = 0.016, f_w = 19.2, f_h = 10.8,
      rnd_firstDelay = 0,
      rnd_forced = \<lparr> rnd_s = 0, rnd_y = 0, rnd_vx = 0, rnd_r = 0, rnd_wobble = 0 \<rparr>,
      rnd_timed = \<lparr> rnd_s = 0, rnd_y = 0, rnd_vx = 0, rnd_r = 0, rnd_wobble = 0 \<rparr>,
      rnd_interval = 0 \<rparr>"

text \<open>Mesh count within the cap, and population within the cap or one.\<close>

definition leaf_inv :: "nat \<Rightarrow> leaf_state \<Rightarrow> bool" where
  "leaf_inv maxLeaves st \<longleftrightarrow>
     meshCount st \<le> maxLeaves \<and> length (leaves st) \<le> max 1 maxLeaves"

section \<open>WaterPlane: the compositing shader (src/Pond.tsx)\<close>

type_synonym vec3 = "real \<times> real \<times> real"

text \<open>
  GLSL built-ins.  \<open>smoothstep\<close> is the formula implementations evaluate, also for
  \<open>edge0 > edge1\<close>, as the vignette uses it.
\<close>

definition mix :: "real \<Rightarrow> real \<Rightarrow> real \<Rightarrow> real" where
  "mix x y a = x * (1 - a) + y * a"

definition mix3 :: "vec3 \<Rightarrow> vec3 \<Rightarrow> real \<Rightarrow> vec3" where
  "mix3 x y a =
     (case x of (x1, x2, x3) \<Rightarrow> case y of (y1, y2, y3) \<Rightarrow>
        (mix x1 y1 a, mix x2 y2 a, mix x3 y3 a))"

definition smoothstep :: "real \<Rightarrow> real \<Rightarrow> real \<Rightarrow> real" where
  "smoothstep edge0 edge1 x =
     (let t = clamp ((x - edge0) / (edge1 - edge0)) 0.0 1.0 in t * t * (3.0 - 2.0 * t))"

definition vlength :: "vec2 \<Rightarrow> real" where
  "vlength v = sqrt ((fst v)\<^sup>2 + (snd v)\<^sup>2)"

definition vadd :: "vec2 \<Rightarrow> vec2 \<Rightarrow> vec2" where
  "vadd a b = (fst a + fst b, snd a + snd b)"

definition vscale :: "vec2 \<Rightarrow> real \<Rightarrow> vec2" where
  "vscale a k = (fst a * k, snd a * k)"

definition add3 :: "vec3 \<Rightarrow> vec3 \<Rightarrow> vec3" where
  "add3 a b =
     (case a of (a1, a2, a3) \<Rightarrow> case b of (b1, b2, b3) \<Rightarrow> (a1 + b1, a2 + b2, a3 + b3))"

definition scale3 :: "vec3 \<Rightarrow> real \<Rightarrow> vec3" where
  "scale3 a k = (case a of (a1, a2, a3) \<Rightarrow> (a1 * k, a2 * k, a3 * k))"

record water_uniforms =
  uTime :: real
  uLevel :: real
  uTint :: vec3
  uSceneTex :: "vec2 \<Rightarrow> vec3"
  uHasSceneTex :: real
  uRippleTex :: sampler2D
  uHasRipple :: real
  uRippleTexel :: vec2

definition drift :: "water_uniforms \<Rightarrow> vec2 \<Rightarrow> real" where
  "drift U p =
     (let t = uTime U * 0.08; a = 0.015
      in sin ((fst p * 2.5) + t) * a + sin ((snd p * 2.2) - t * 1.2) * a)"

definition rippleH :: "water_uniforms \<Rightarrow> vec2 \<Rightarrow> real" where
  "rippleH U uv = (if uHasRipple U < 0.5 then 0.0 else decodeH (uRippleTex U uv))"

definition rippleGrad :: "water_uniforms \<Rightarrow> vec2 \<Rightarrow> vec2" where
  "rippleGrad U uv =
     (if uHasRipple U < 0.5 then (0.0, 0.0)
      else
        let e = uRippleTexel U;
            hL = decodeH (uRippleTex U (fst uv - fst e, snd uv - 0.0));
            hR = decodeH (uRippleTex U (fst uv + fst e, snd uv + 0.0));
            hD = decodeH (uRippleTex U (fst uv - 0.0, snd uv - snd e));
            hU = decodeH (uRippleTex U (fst uv + 0.0, snd uv + snd e))
        in (hR - hL, hU - hD))"

text \<open>The two level-dependent proportions of \<open>main\<close>: the weight of the tint in the
  blend with the background, and the opacity before the vignette.\<close>

definition tintMix :: "real \<Rightarrow> real" where
  "tintMix lvl = 0.25 + 0.35 * lvl"

definition baseAlpha :: "real \<Rightarrow> real" where
  "baseAlpha lvl = 0.06 + 0.48 * lvl"

text \<open>\<open>main\<close> of the fragment shader: the colour and the alpha of \<open>gl_FragColor\<close>.\<close>

definition water_main :: "water_uniforms \<Rightarrow> vec2 \<Rightarrow> vec3 \<times> real" where
  "water_main U vUv =
    (let p = ((fst vUv - 0.5) * (1.0 + uLevel U * 0.10) + 0.5,
              (snd vUv - 0.5) * (1.0 + uLevel U * 0.10) + 0.5);
         rUv = vUv;
         h = drift U p + rippleH U rUv * 0.45;
         g = vscale (rippleGrad U rUv) 0.85;
         rippleEnergy = vlength g;
         highlight = smoothstep 0.06 0.22 rippleEnergy;
         uv = vUv;
         distort = vscale g (0.03 * uLevel U);
         distort = vadd distort
                     (vscale (sin ((snd uv * 6.0) + uTime U * 0.15),
                              sin ((fst uv * 6.0) - uTime U * 0.12))
                             (0.0015 * uLevel U));
         distort = vadd distort (vscale (h, h) (0.006 * uLevel U));
         bg = uTint U;
         bg = (if uHasSceneTex U > 0.5 then uSceneTex U (vadd uv distort) else bg);
         col = mix3 bg (uTint U) (tintMix (uLevel U));
         col = add3 col (scale3 (0.18, 0.26, 0.32) highlight);
         distToCenter = distance vUv (0.5, 0.5);
         edge = smoothstep 0.20 0.75 distToCenter;
         col = add3 col (scale3 (scale3 (0.06, 0.10, 0.14) edge) (0.3 + 0.7 * uLevel U));
         alpha = baseAlpha (uLevel U);
         vignette = smoothstep 0.98 0.45 distToCenter;
         alpha = alpha * vignette
     in (col, alpha))"

text \<open>Uniforms with no ripple texture and no background image, at a given level.\<close>

definition plain_uniforms :: "real \<Rightarrow> water_uniforms" where
  "plain_uniforms lvl =
    \<lparr> uTime = 0, uLevel = lvl, uTint = (0.17, 0.45, 1), uSceneTex = (\<lambda>uv. (0, 0, 0)),
      uHasSceneTex = 0, uRippleTex = (\<lambda>uv. 0.5), uHasRipple = 0,
      uRippleTexel = (1 / 512, 1 / 512) \<rparr>"

text \<open>Uniforms with a background image of one colour and no ripple texture.\<close>

definition scene_uniforms :: "real \<Rightarrow> water_uniforms" where
  "scene_uniforms lvl =
    \<lparr> uTime = 0, uLevel = lvl, uTint = (0.17, 0.45, 1),
      uSceneTex = (\<lambda>uv. (1 / 5, 2 / 5, 3 / 5)),
      uHasSceneTex = 1, uRippleTex = (\<lambda>uv. 0.5), uHasRipple = 0,
      uRippleTexel = (1 / 512, 1 / 512) \<rparr>"

section \<open>Properties of RippleSim\<close>

lemma decode_encode: "decodeH (encodeH h) = h"
  by (simp add: decodeH_def encodeH_def)

lemma clamp_bounds: "lo \<le> hi \<Longrightarrow> lo \<le> clamp x lo hi \<and> clamp x lo hi \<le> hi"
  by (simp add: clamp_def)

lemma texel_centre:
  assumes "0 < simSize" "i < simSize"
  shows "texel simSize ((real i + 1 / 2) / real simSize) = i"
proof -
  have "((real i + 1 / 2) / real simSize) * real simSize = real i + 1/2"
    using assms by simp
  moreover have "\<lfloor>real i + 1/2\<rfloor> = int i" by linarith
  ultimately show ?thesis using assms by (simp add: texel_def)
qed

lemma texel_east:
  assumes "0 < simSize" "i < simSize"
  shows "texel simSize ((real i + 1 / 2) / real simSize + 1 / real simSize)
         = min (Suc i) (simSize - Suc 0)"
proof -
  have "((real i + 1 / 2) / real simSize + 1 / real simSize) * real simSize = real i + 3/2"
    using assms by (simp add: field_simps)
  moreover have "\<lfloor>real i + 3/2\<rfloor> = int i + 1" by linarith
  ultimately have "texel simSize ((real i + 1 / 2) / real simSize + 1 / real simSize)
      = nat (max 0 (min (int simSize - 1) (int i + 1)))"
    unfolding texel_def by simp
  also have "\<dots> = min (Suc i) (simSize - Suc 0)" using assms by linarith
  finally show ?thesis .
qed

lemma texel_west:
  assumes "0 < simSize" "i < simSize"
  shows "texel simSize ((real i + 1 / 2) / real simSize - 1 / real simSize) = i - Suc 0"
proof -
  have "((real i + 1 / 2) / real simSize - 1 / real simSize) * real simSize = real i - 1/2"
    using assms by (simp add: field_simps)
  moreover have "\<lfloor>real i - 1/2\<rfloor> = int i - 1" by linarith
  ultimately have "texel simSize ((real i + 1 / 2) / real simSize - 1 / real simSize)
      = nat (max 0 (min (int simSize - 1) (int i - 1)))"
    unfolding texel_def by simp
  also have "\<dots> = i - Suc 0" using assms by linarith
  finally show ?thesis .
qed

lemma fragment_at_cell:
  assumes N: "0 < simSize" and i: "i < simSize" and j: "j < simSize"
  shows "decodeH (fragmentShader
            \<lparr> uPrev = texture2D simSize cur, uPrevPrev = texture2D simSize prv,
              uTexel = (1 / real simSize, 1 / real simSize), uMouse = m,
              uImpulse = a, uImpulseRadius = r, uC = 0.35, uDamping = 0.020,
              uStrength = g \<rparr> (cell_uv simSize i j))
         = spec_next simSize g cur prv m a r i j"
  unfolding fragmentShader_def Let_def decode_encode
  by (simp add: sampleH_def texture2D_def cell_uv_def
      texel_centre[OF N i] texel_centre[OF N j] texel_east[OF N i] texel_east[OF N j]
      texel_west[OF N i] texel_west[OF N j] spec_next_def spec_height_def
      spec_laplacian_def spec_gaussian_def decodeH_def power2_eq_square mult.commute)

lemma useFrame_enabled_fields:
  "prevIdx (useFrame simSize g True st) = writeIdx st"
  "prevPrevIdx (useFrame simSize g True st) = prevIdx st"
  "writeIdx (useFrame simSize g True st) = prevPrevIdx st"
  "texture (useFrame simSize g True st) = Some (writeIdx st)"
  "impulse (useFrame simSize g True st) = impulse st * 0.85"
  "impulseRadius (useFrame simSize g True st) = lerp (impulseRadius st) baseRadius 0.18"
  "mouseUv (useFrame simSize g True st) = mouseUv st"
  "lastMouse (useFrame simSize g True st) = lastMouse st"
  "lastT (useFrame simSize g True st) = lastT st"
  "rts (useFrame simSize g True st) =
     (rts st)[writeIdx st := render simSize
        \<lparr> uPrev = texture2D simSize (rts st ! prevIdx st),
          uPrevPrev = texture2D simSize (rts st ! prevPrevIdx st),
          uTexel = (1 / real simSize, 1 / real simSize), uMouse = mouseUv st,
          uImpulse = impulse st, uImpulseRadius = impulseRadius st,
          uC = 0.35, uDamping = 0.020, uStrength = g \<rparr> (clear 0.5)]"
  by (simp_all add: useFrame_def Let_def)

lemma spec_height_decode: "spec_height b i j = decodeH (b i j)"
  by (simp add: spec_height_def decodeH_def)

text \<open>
  C1.  On an enabled tick, the buffer that becomes current holds at every grid cell the
  second-order finite-difference wave step of the old current and previous buffers:
  \<open>2*current - previous + c\<^sup>2 * laplacian(current) - damping * (current - previous)
  + gaussian * magnitude * globalStrength\<close>, clamped to \<open>[-1, 1]\<close>, with \<open>c = 0.35\<close>,
  \<open>damping = 0.02\<close>, the four-neighbour Laplacian and heights decoded by \<open>h = 2r - 1\<close>.
\<close>

theorem useFrame_wave_step:
  assumes "0 < simSize" "i < simSize" "j < simSize" "writeIdx st < length (rts st)"
  shows "spec_height (rts (useFrame simSize g True st)
                        ! prevIdx (useFrame simSize g True st)) i j
       = spec_next simSize g (rts st ! prevIdx st) (rts st ! prevPrevIdx st)
           (mouseUv st) (impulse st) (impulseRadius st) i j"
  using assms fragment_at_cell[OF assms(1-3)]
  by (simp add: useFrame_enabled_fields render_def spec_height_decode)

theorem useFrame_wave_step_witness:
  "(0::nat) < 2 \<and> (0::nat) < 2
   \<and> writeIdx (onDown True (1/4, 1/4) 0 (init_sim 0 (clear 0) (clear 0) (clear 0)))
       < length (rts (onDown True (1/4, 1/4) 0 (init_sim 0 (clear 0) (clear 0) (clear 0))))
   \<and> spec_height
        (rts (useFrame 2 0.9 True
                (onDown True (1/4, 1/4) 0 (init_sim 0 (clear 0) (clear 0) (clear 0))))
         ! prevIdx (useFrame 2 0.9 True
                (onDown True (1/4, 1/4) 0 (init_sim 0 (clear 0) (clear 0) (clear 0))))) 0 0
       = 1"
  using useFrame_wave_step
    [of 2 0 0 "onDown True (1/4, 1/4) 0 (init_sim 0 (clear 0) (clear 0) (clear 0))" "0.9"]
  by (simp add: onDown_def init_sim_def initEffect_def spec_next_def spec_height_def
       spec_laplacian_def spec_gaussian_def distance_def cell_uv_def clear_def clamp_def)

text \<open>
  C3.  A tick with \<open>enabled = false\<close> passes \<open>null\<close> to \<open>onTexture\<close> and changes nothing
  else: no target is written and the three role indices keep their values.
\<close>

theorem useFrame_disabled:
  "texture (useFrame simSize g False st) = None
   \<and> rts (useFrame simSize g False st) = rts st
   \<and> prevIdx (useFrame simSize g False st) = prevIdx st
   \<and> prevPrevIdx (useFrame simSize g False st) = prevPrevIdx st
   \<and> writeIdx (useFrame simSize g False st) = writeIdx st
   \<and> useFrame simSize g False st = st\<lparr>texture := None\<rparr>"
  by (simp add: useFrame_def)

subsection \<open>Rotation of the three buffer roles\<close>

lemma three_distinct_below_3:
  assumes "p < (3::nat)" "q < 3" "w < 3" "distinct [p, q, w]"
  shows "set [p, q, w] = {0, 1, 2}"
proof -
  have "card (set [p, q, w]) = 3"
    using assms(4) distinct_card[of "[p, q, w]"] by simp
  moreover have "set [p, q, w] \<subseteq> {..<3}" using assms by simp
  moreover have "card {..<(3::nat)} = 3" by simp
  ultimately have "set [p, q, w] = {..<3}"
    by (metis card_subset_eq finite_lessThan)
  also have "\<dots> = {0, 1, 2::nat}" by (auto simp: less_Suc_eq numeral_3_eq_3)
  finally show ?thesis .
qed

lemma roles_ok_init: "roles_ok (init_sim t0 a b c)"
  by (simp add: roles_ok_def init_sim_def initEffect_def)

lemma roles_ok_useFrame: "roles_ok st \<Longrightarrow> roles_ok (useFrame simSize g en st)"
  by (cases en) (auto simp: roles_ok_def useFrame_enabled_fields useFrame_def)

lemma roles_ok_step: "roles_ok st \<Longrightarrow> roles_ok (sim_step simSize g st ev)"
  by (cases ev)
    (simp_all add: roles_ok_useFrame, simp_all add: roles_ok_def onMove_def onDown_def Let_def)

lemma roles_ok_run: "roles_ok st \<Longrightarrow> roles_ok (sim_run simSize g st evs)"
  unfolding sim_run_def
  by (induction evs arbitrary: st) (simp_all add: roles_ok_step)

text \<open>
  C4.  In every state reached from mounting, an enabled tick rotates the roles: the
  target just written becomes current, the old current becomes previous and the old
  previous becomes the next write target.  The three role indices are always a
  permutation of \<open>{0, 1, 2}\<close>; the tick writes exactly one target (the write target) and
  leaves the other two, the two most recent states, as they were.
\<close>

theorem buffer_roles_rotate:
  "let st = sim_run simSize g (init_sim t0 rtA rtB rtC) evs;
       st' = useFrame simSize g True st
   in prevIdx st' = writeIdx st \<and> prevPrevIdx st' = prevIdx st
      \<and> writeIdx st' = prevPrevIdx st
      \<and> set [prevIdx st, prevPrevIdx st, writeIdx st] = {0, 1, 2}
      \<and> distinct [prevIdx st, prevPrevIdx st, writeIdx st]
      \<and> set [prevIdx st', prevPrevIdx st', writeIdx st'] = {0, 1, 2}
      \<and> length (rts st) = 3
      \<and> rts st' = (rts st)[writeIdx st := rts st' ! writeIdx st]
      \<and> rts st' ! prevPrevIdx st' = rts st ! prevIdx st
      \<and> rts st' ! writeIdx st' = rts st ! prevPrevIdx st
      \<and> texture st' = Some (prevIdx st')"
proof -
  define st where "st = sim_run simSize g (init_sim t0 rtA rtB rtC) evs"
  define st' where "st' = useFrame simSize g True st"
  have ok: "roles_ok st"
    unfolding st_def by (rule roles_ok_run[OF roles_ok_init])
  then have perm: "set [prevIdx st, prevPrevIdx st, writeIdx st] = {0, 1, 2}"
    unfolding roles_ok_def using three_distinct_below_3 by blast
  have "roles_ok st'"
    unfolding st'_def by (rule roles_ok_useFrame[OF ok])
  then have perm': "set [prevIdx st', prevPrevIdx st', writeIdx st'] = {0, 1, 2}"
    unfolding roles_ok_def using three_distinct_below_3 by blast
  from ok have ne: "prevIdx st \<noteq> writeIdx st" "prevPrevIdx st \<noteq> writeIdx st"
    and d: "distinct [prevIdx st, prevPrevIdx st, writeIdx st]"
    and l: "length (rts st) = 3"
    by (auto simp: roles_ok_def)
  have kept: "rts st' ! prevIdx st = rts st ! prevIdx st"
    "rts st' ! prevPrevIdx st = rts st ! prevPrevIdx st"
    unfolding st'_def using ne by (simp_all add: useFrame_enabled_fields)
  have one: "rts st' = (rts st)[writeIdx st := rts st' ! writeIdx st]"
    unfolding st'_def using ok by (simp add: useFrame_enabled_fields roles_ok_def)
  have idx: "prevIdx st' = writeIdx st" "prevPrevIdx st' = prevIdx st"
    "writeIdx st' = prevPrevIdx st" "texture st' = Some (writeIdx st)"
    unfolding st'_def by (simp_all add: useFrame_enabled_fields)
  show ?thesis
    unfolding Let_def st_def[symmetric] st'_def[symmetric]
    using perm perm' d l kept one idx by simp
qed

subsection \<open>The clamp invariant\<close>

lemma render_bounded:
  assumes "i < simSize" "j < simSize"
  shows "- 1 \<le> spec_height (render simSize U buf) i j
         \<and> spec_height (render simSize U buf) i j \<le> 1"
  using assms clamp_bounds[of "-1" 1]
  by (simp add: render_def fragmentShader_def Let_def spec_height_def encodeH_def)

lemma heights_bounded_useFrame:
  assumes hb: "heights_bounded simSize st"
  shows "heights_bounded simSize (useFrame simSize g en st)"
proof (cases en)
  case False
  with hb show ?thesis by (simp add: heights_bounded_def useFrame_def)
next
  case True
  then have en: "en = True" by simp
  show ?thesis
    unfolding heights_bounded_def en useFrame_enabled_fields
  proof (intro ballI allI impI)
    fix buf i j
    assume b: "buf \<in> set ((rts st)[writeIdx st := render simSize
        \<lparr> uPrev = texture2D simSize (rts st ! prevIdx st),
          uPrevPrev = texture2D simSize (rts st ! prevPrevIdx st),
          uTexel = (1 / real simSize, 1 / real simSize), uMouse = mouseUv st,
          uImpulse = impulse st, uImpulseRadius = impulseRadius st,
          uC = 0.35, uDamping = 0.020, uStrength = g \<rparr> (clear 0.5)])"
      and ij: "i < simSize" "j < simSize"
    from b set_update_subset_insert
    have "buf \<in> set (rts st) \<or> (\<exists>U. buf = render simSize U (clear 0.5))"
      by fastforce
    then show "- 1 \<le> spec_height buf i j \<and> spec_height buf i j \<le> 1"
      using hb ij render_bounded[OF ij] unfolding heights_bounded_def by blast
  qed
qed

lemma heights_bounded_step:
  assumes hb: "heights_bounded simSize st"
  shows "heights_bounded simSize (sim_input_step simSize g st inp)"
proof (cases inp)
  case (Event ev)
  with hb show ?thesis
    by (cases ev)
      (simp_all add: heights_bounded_useFrame,
       simp_all add: heights_bounded_def onMove_def onDown_def Let_def)
next
  case (Impulse p m r)
  with hb show ?thesis by (simp add: heights_bounded_def)
qed

text \<open>
  C2.  From any state whose cells are within \<open>[-1, 1]\<close> (the mounted state is one), and
  for every sequence of frames, pointer events and impulses of any position, magnitude
  and radius, every cell of every target stays within \<open>[-1, 1]\<close>.
\<close>

theorem heights_stay_bounded:
  "heights_bounded simSize st \<Longrightarrow>
     heights_bounded simSize (foldl (sim_input_step simSize g) st inps)"
  by (induction inps arbitrary: st) (simp_all add: heights_bounded_step)

theorem heights_stay_bounded_witness:
  "heights_bounded 2 (init_sim 0 (clear 0) (clear 7) (clear 0))
   \<and> heights_bounded 2
       (foldl (sim_input_step 2 0.9) (init_sim 0 (clear 0) (clear 7) (clear 0))
          [Impulse (1/4, 1/4) 1000 3, Event (Frame True)])"
proof -
  have h: "heights_bounded 2 (init_sim 0 (clear 0) (clear 7) (clear 0))"
    by (simp add: heights_bounded_def init_sim_def initEffect_def clear_def spec_height_def)
  show ?thesis
    using h heights_stay_bounded
      [OF h, of "0.9" "[Impulse (1/4, 1/4) 1000 3, Event (Frame True)]"]
    by simp
qed

text \<open>
  C10.  After the init effect each of the three targets stores \<open>0.5\<close> at every cell,
  whatever it held when allocated, and \<open>0.5\<close> decodes to height \<open>0\<close>: the simulation
  starts from a flat surface.
\<close>

theorem init_flat:
  "map (\<lambda>buf. buf i j) (rts (init_sim t0 rtA rtB rtC)) = [0.5, 0.5, 0.5]
   \<and> map (\<lambda>buf. decodeH (buf i j)) (rts (init_sim t0 rtA rtB rtC)) = [0, 0, 0]
   \<and> impulse (init_sim t0 rtA rtB rtC) = 0"
  by (simp add: init_sim_def initEffect_def clear_def decodeH_def)

subsection \<open>Energy under damping\<close>

lemma useFrame_cell:
  assumes "0 < simSize" "i < simSize" "j < simSize" "writeIdx st < length (rts st)"
  shows "spec_height (rts (useFrame simSize g True st) ! writeIdx st) i j
       = spec_next simSize g (rts st ! prevIdx st) (rts st ! prevPrevIdx st)
           (mouseUv st) (impulse st) (impulseRadius st) i j"
  using assms fragment_at_cell[OF assms(1-3)]
  by (simp add: useFrame_enabled_fields render_def spec_height_decode)

lemma growth_arith:
  fixes a e w n s :: real
  assumes "0 < a" "0 < e" "0 < w" "0 < n" "0 < s" "a \<le> 1/2"
  shows "a < clamp (2 * a - 0 + 0.35\<^sup>2 * (e + w + n + s - 4 * a) - 0.02 * (a - 0)
                    + G * 0 * g) (- 1) 1"
proof -
  have "a < 2 * a - 0 + 0.35\<^sup>2 * (e + w + n + s - 4 * a) - 0.02 * (a - 0) + G * 0 * g"
    using assms by (simp add: power2_eq_square field_simps)
  with assms show ?thesis by (simp add: clamp_def less_max_iff_disj)
qed

text \<open>
  Over a flat previous field and with no impulse, a field that is positive (and at most
  \<open>1/2\<close>) everywhere rises at every cell.
\<close>

lemma zero_impulse_growth:
  assumes N: "0 < N" and i: "i < N" and j: "j < N"
    and pos: "\<And>i j. i < N \<Longrightarrow> j < N \<Longrightarrow>
                0 < spec_height cur i j \<and> spec_height cur i j \<le> 1/2"
    and flat: "spec_height prv i j = 0"
  shows "spec_height cur i j < spec_next N g cur prv m 0 r i j"
proof -
  have e: "0 < spec_height cur (min (i + 1) (N - 1)) j"
    using pos[of "min (i + 1) (N - 1)" j] N j by simp
  have w: "0 < spec_height cur (i - 1) j"
    using pos[of "i - 1" j] i j by simp
  have n: "0 < spec_height cur i (min (j + 1) (N - 1))"
    using pos[of i "min (j + 1) (N - 1)"] N i by simp
  have s: "0 < spec_height cur i (j - 1)"
    using pos[of i "j - 1"] i j by simp
  have c: "0 < spec_height cur i j" "spec_height cur i j \<le> 1/2"
    using pos[OF i j] by simp_all
  show ?thesis
    unfolding spec_next_def spec_laplacian_def flat
    by (rule growth_arith[OF c(1) e w n s c(2)])
qed

lemma energy_strict_mono:
  assumes N: "0 < N"
    and lt: "\<And>i j. i < N \<Longrightarrow> j < N \<Longrightarrow>
               0 < spec_height a i j \<and> spec_height a i j < spec_height b i j"
  shows "energy N a < energy N b"
proof -
  have ne: "{..<N} \<noteq> {}" using N by auto
  have sq: "(spec_height a i j)\<^sup>2 < (spec_height b i j)\<^sup>2" if "i < N" "j < N" for i j
    using lt[OF that] by (simp add: power_strict_mono)
  have "(\<Sum>j<N. (spec_height a i j)\<^sup>2) < (\<Sum>j<N. (spec_height b i j)\<^sup>2)"
    if "i < N" for i
    using ne sq[OF that] by (intro sum_strict_mono) simp_all
  then have rows: "\<And>i. i \<in> {..<N} \<Longrightarrow>
      (\<Sum>j<N. (spec_height a i j)\<^sup>2) < (\<Sum>j<N. (spec_height b i j)\<^sup>2)"
    by simp
  show ?thesis
    unfolding energy_def by (rule sum_strict_mono[OF finite_lessThan ne rows])
qed

lemma energy_bounds:
  assumes "\<And>i j. i < N \<Longrightarrow> j < N \<Longrightarrow>
             - 1 \<le> spec_height b i j \<and> spec_height b i j \<le> 1"
  shows "0 \<le> energy N b \<and> energy N b \<le> (real N)\<^sup>2"
proof -
  have sq: "(spec_height b i j)\<^sup>2 \<le> 1" if "i < N" "j < N" for i j
    using assms[OF that] by (simp add: abs_square_le_1 abs_le_iff)
  have "(\<Sum>j<N. (spec_height b i j)\<^sup>2) \<le> real N" if "i < N" for i
    using sum_bounded_above[of "{..<N}" "\<lambda>j. (spec_height b i j)\<^sup>2" 1] sq[OF that]
    by simp
  then have "energy N b \<le> real N * real N"
    unfolding energy_def
    using sum_bounded_above[of "{..<N}" "\<lambda>i. \<Sum>j<N. (spec_height b i j)\<^sup>2" "real N"]
    by simp
  moreover have "0 \<le> energy N b"
    unfolding energy_def by (intro sum_nonneg) simp
  ultimately show ?thesis by (simp add: power2_eq_square)
qed

lemma cx_stroke_fields:
  "prevIdx cx_stroke = 2" "prevPrevIdx cx_stroke = 0" "writeIdx cx_stroke = 1"
  "lastMouse cx_stroke = (3/5, 4/5)" "mouseUv cx_stroke = (3/5, 4/5)"
  "length (rts cx_stroke) = 3" "rts cx_stroke ! 0 = clear 0.5"
  by (simp_all add: cx_stroke_def sim_run_def useFrame_enabled_fields onMove_def Let_def
      init_sim_def initEffect_def)

lemma cx_stroke_height:
  assumes "i < 512" "j < 512"
  shows "0 < spec_height (rts cx_stroke ! 2) i j
         \<and> spec_height (rts cx_stroke ! 2) i j \<le> 1/2"
proof -
  define s1 where
    "s1 = onMove True (3/5, 4/5) 1000 (init_sim 0 (clear 0) (clear 0) (clear 0))"
  have f: "writeIdx s1 = 2" "length (rts s1) = 3" "impulse s1 = 0.35"
    "rts s1 ! prevIdx s1 = clear 0.5" "rts s1 ! prevPrevIdx s1 = clear 0.5"
    by (simp_all add: s1_def onMove_def Let_def init_sim_def initEffect_def)
  have "cx_stroke = useFrame 512 0.9 True s1"
    by (simp add: cx_stroke_def sim_run_def s1_def)
  then have "spec_height (rts cx_stroke ! 2) i j
      = spec_next 512 0.9 (clear 0.5) (clear 0.5) (mouseUv s1) 0.35 (impulseRadius s1) i j"
    using useFrame_cell[of 512 i j s1 "0.9"] assms f by simp
  also have "\<dots> = clamp (spec_gaussian (distance (cell_uv 512 i j) (mouseUv s1))
                             (impulseRadius s1) * 0.35 * 0.9) (- 1) 1"
    by (simp add: spec_next_def spec_laplacian_def spec_height_def clear_def)
  finally have eq: "spec_height (rts cx_stroke ! 2) i j
      = clamp (spec_gaussian (distance (cell_uv 512 i j) (mouseUv s1))
                 (impulseRadius s1) * 0.35 * 0.9) (- 1) 1" .
  have g: "0 < spec_gaussian d r" "spec_gaussian d r \<le> 1" for d r
    by (simp_all add: spec_gaussian_def)
  show ?thesis
    unfolding eq
    using g[of "distance (cell_uv 512 i j) (mouseUv s1)" "impulseRadius s1"]
    by (simp add: clamp_def)
qed

lemma cx_rest_fields:
  "impulse cx_rest = 0" "prevIdx cx_rest = 2" "prevPrevIdx cx_rest = 0"
  "writeIdx cx_rest = 1" "rts cx_rest = rts cx_stroke"
  by (simp_all add: cx_rest_def sim_run_def onMove_def Let_def cx_stroke_fields)

lemma cx_after_height:
  assumes "i < 512" "j < 512"
  shows "spec_height (rts cx_after ! 1) i j
      = spec_next 512 0.9 (rts cx_stroke ! 2) (clear 0.5) (mouseUv cx_rest) 0
          (impulseRadius cx_rest) i j"
proof -
  have "cx_after = useFrame 512 0.9 True cx_rest"
    by (simp add: cx_after_def sim_run_def)
  then show ?thesis
    using useFrame_cell[of 512 i j cx_rest "0.9"] assms
    by (simp add: cx_rest_fields cx_stroke_fields)
qed

text \<open>
  C8, as stated, fails.  In the run above the frame rendered with impulse magnitude
  \<open>0\<close> (and damping \<open>0.02\<close>) strictly increases the total energy of the current field.
\<close>

theorem energy_grows_counterexample:
  "impulse cx_rest = 0
   \<and> energy 512 (rts cx_rest ! prevIdx cx_rest)
       < energy 512 (rts cx_after ! prevIdx cx_after)"
proof -
  have p: "prevIdx cx_after = 1"
    by (simp add: cx_after_def sim_run_def useFrame_enabled_fields cx_rest_fields)
  have flat: "spec_height (clear 0.5) i j = 0" for i j
    by (simp add: spec_height_def clear_def)
  have "0 < spec_height (rts cx_stroke ! 2) i j
        \<and> spec_height (rts cx_stroke ! 2) i j < spec_height (rts cx_after ! 1) i j"
    if "i < 512" "j < 512" for i j
    unfolding cx_after_height[OF that]
    using cx_stroke_height[OF that]
      zero_impulse_growth[of 512 i j "rts cx_stroke ! 2" "clear 0.5",
        OF _ that cx_stroke_height flat]
    by simp
  then have "energy 512 (rts cx_stroke ! 2) < energy 512 (rts cx_after ! 1)"
    by (intro energy_strict_mono) simp_all
  then show ?thesis by (simp add: cx_rest_fields p)
qed

lemma damped_velocity:
  fixes c v :: real
  assumes "\<bar>c\<bar> \<le> 1"
  shows "\<bar>clamp (c + (1 - 0.02) * v + 0.35\<^sup>2 * 0) (- 1) 1 - c\<bar> \<le> (1 - 0.02) * \<bar>v\<bar>"
  using assms by (simp add: clamp_def min_def max_def abs_if split: if_splits)

text \<open>
  C8, amended.  On an enabled tick with impulse magnitude \<open>0\<close>, every cell becomes
  \<open>clamp(current + (1 - damping) * (current - previous) + c\<^sup>2 * laplacian(current))\<close>
  with \<open>damping = 0.02\<close>: the damping scales the velocity carried over by \<open>0.98\<close>.  Where
  the Laplacian is zero the new velocity is at most \<open>0.98\<close> times the old in magnitude,
  and the total energy of the new field lies between \<open>0\<close> and the number of cells.
\<close>

theorem zero_impulse_tick:
  assumes "0 < simSize" "i < simSize" "j < simSize" "writeIdx st < length (rts st)"
    and "impulse st = 0"
  shows "let cur = rts st ! prevIdx st; prv = rts st ! prevPrevIdx st;
             st' = useFrame simSize g True st; new = rts st' ! prevIdx st'
         in spec_height new i j
              = clamp (spec_height cur i j
                       + (1 - 0.02) * (spec_height cur i j - spec_height prv i j)
                       + 0.35\<^sup>2 * spec_laplacian simSize cur i j) (- 1) 1
          \<and> (spec_laplacian simSize cur i j = 0 \<and> \<bar>spec_height cur i j\<bar> \<le> 1 \<longrightarrow>
               \<bar>spec_height new i j - spec_height cur i j\<bar>
                 \<le> (1 - 0.02) * \<bar>spec_height cur i j - spec_height prv i j\<bar>)
          \<and> 0 \<le> energy simSize new \<and> energy simSize new \<le> (real simSize)\<^sup>2"
proof -
  define cur where "cur = rts st ! prevIdx st"
  define prv where "prv = rts st ! prevPrevIdx st"
  define new where
    "new = rts (useFrame simSize g True st) ! prevIdx (useFrame simSize g True st)"
  have new: "new = rts (useFrame simSize g True st) ! writeIdx st"
    by (simp add: new_def useFrame_enabled_fields)
  have "spec_height new i j
        = spec_next simSize g cur prv (mouseUv st) 0 (impulseRadius st) i j"
    unfolding new cur_def prv_def
    using useFrame_cell[OF assms(1-4), of g] assms(5) by simp
  also have "\<dots> = clamp (spec_height cur i j
                       + (1 - 0.02) * (spec_height cur i j - spec_height prv i j)
                       + 0.35\<^sup>2 * spec_laplacian simSize cur i j) (- 1) 1"
    unfolding spec_next_def
    by (rule arg_cong[where f="\<lambda>x. clamp x (- 1) 1"]) (simp add: field_simps)
  finally have step: "spec_height new i j = clamp (spec_height cur i j
                       + (1 - 0.02) * (spec_height cur i j - spec_height prv i j)
                       + 0.35\<^sup>2 * spec_laplacian simSize cur i j) (- 1) 1" .
  have vel: "\<bar>spec_height new i j - spec_height cur i j\<bar>
                 \<le> (1 - 0.02) * \<bar>spec_height cur i j - spec_height prv i j\<bar>"
    if "spec_laplacian simSize cur i j = 0" "\<bar>spec_height cur i j\<bar> \<le> 1"
    unfolding step that(1) by (rule damped_velocity[OF that(2)])
  have "new = render simSize \<lparr> uPrev = texture2D simSize (rts st ! prevIdx st),
          uPrevPrev = texture2D simSize (rts st ! prevPrevIdx st),
          uTexel = (1 / real simSize, 1 / real simSize), uMouse = mouseUv st,
          uImpulse = impulse st, uImpulseRadius = impulseRadius st,
          uC = 0.35, uDamping = 0.020, uStrength = g \<rparr> (clear 0.5)"
    unfolding new using assms(4) by (simp add: useFrame_enabled_fields)
  then have en: "0 \<le> energy simSize new \<and> energy simSize new \<le> (real simSize)\<^sup>2"
    using energy_bounds[of simSize new] render_bounded by simp
  show ?thesis
    unfolding Let_def cur_def[symmetric] prv_def[symmetric] new_def[symmetric]
    using step vel en by blast
qed

theorem zero_impulse_tick_witness:
  "(0::nat) < 2 \<and> writeIdx moving_state < length (rts moving_state)
   \<and> impulse moving_state = 0
   \<and> spec_height (rts moving_state ! prevIdx moving_state) 0 0 = 1/10
   \<and> spec_height (rts moving_state ! prevPrevIdx moving_state) 0 0 = 0
   \<and> spec_height (rts (useFrame 2 0.9 True moving_state)
                      ! prevIdx (useFrame 2 0.9 True moving_state)) 0 0 = 99/500
   \<and> energy 2 (rts (useFrame 2 0.9 True moving_state)
                      ! prevIdx (useFrame 2 0.9 True moving_state)) \<le> 4"
proof -
  have h: "(0::nat) < 2" "writeIdx moving_state < length (rts moving_state)"
    "impulse moving_state = 0"
    by (simp_all add: moving_state_def)
  have v: "spec_height (rts moving_state ! prevIdx moving_state) i j = 1/10"
    "spec_height (rts moving_state ! prevPrevIdx moving_state) i j = 0" for i j
    by (simp_all add: moving_state_def spec_height_def clear_def)
  have l: "spec_laplacian 2 (rts moving_state ! prevIdx moving_state) 0 0 = 0"
    by (simp add: spec_laplacian_def v)
  show ?thesis
    using zero_impulse_tick[OF h(1) h(1) h(1) h(2) h(3), of "0.9"] h v[of 0 0]
    unfolding Let_def l v
    by (simp add: clamp_def)
qed

section \<open>Properties of the level transition\<close>

lemma levelRef_mount: "levelRef (mount ph t) = level (mount ph t)"
  by (simp add: mount_def phaseEffect_def levelEffect_def)

lemma levelRef_step:
  "levelRef st = level st \<Longrightarrow> levelRef (scene_step st ev) = level (scene_step st ev)"
  by (cases ev) (simp_all add: phaseEffect_def levelEffect_def)

lemma levelRef_run:
  "levelRef st = level st \<Longrightarrow> levelRef (scene_run st evs) = level (scene_run st evs)"
  unfolding scene_run_def
  by (induction evs arbitrary: st) (simp_all add: levelRef_step)

lemma tick_level:
  "level (tick now st) =
     (if (now - anim_start st) / anim_dur st < 1
      then anim_from st + (anim_to st - anim_from st)
             * easeInOutCubic ((now - anim_start st) / anim_dur st)
      else anim_to st)"
  by (simp add: tick_def Let_def min_def)

lemma ease_bounds:
  assumes "0 \<le> p" "p \<le> 1"
  shows "0 \<le> easeInOutCubic p \<and> easeInOutCubic p \<le> 1"
proof (cases "p < 1/2")
  case True
  have "p * p * p \<le> (1/2) * (1/2) * (1/2)"
    using assms True by (intro mult_mono) simp_all
  moreover have "0 \<le> p * p * p" using assms by simp
  ultimately show ?thesis using True by (simp add: easeInOutCubic_def)
next
  case False
  define q where "q = 2 - 2 * p"
  have q: "0 \<le> q" "q \<le> 1" using False assms by (simp_all add: q_def)
  have e: "easeInOutCubic p = 1 - q ^ 3 / 2"
    using False by (simp add: easeInOutCubic_def q_def)
  have "q ^ 3 \<le> 1" using q by (simp add: power_le_one)
  moreover have "0 \<le> q ^ 3" using q by simp
  ultimately show ?thesis unfolding e by simp
qed

lemma between:
  fixes L t e :: real
  assumes "0 \<le> e" "e \<le> 1"
  shows "min L t \<le> L + (t - L) * e \<and> L + (t - L) * e \<le> max L t"
proof (cases "L \<le> t")
  case True
  then have "0 \<le> (t - L) * e" "0 \<le> (t - L) * (1 - e)"
    using assms by simp_all
  with True show ?thesis by (simp add: algebra_simps)
next
  case False
  then have "(t - L) * e \<le> 0" "(t - L) * (1 - e) \<le> 0"
    using assms by (simp_all add: mult_le_0_iff)
  with False show ?thesis by (simp add: algebra_simps)
qed







text \<open>
  C5.  In every state reached from mounting, a run of the transition effect starts the
  new interpolation from the level's current value: the first frames move the level
  from that value toward the new target along the cubic ease, over 500 ms when draining
  and 650 ms otherwise, staying between the two.
\<close>

theorem retarget_from_current_level:
  "let st = scene_run (mount ph0 t0) evs;
       st1 = scene_step st (PhaseEffect ph t);
       to = (if ph = Draining then 0 else 1);
       dur = (if ph = Draining then 500 else 650)
   in anim_from st1 = level st \<and> anim_to st1 = to \<and> anim_dur st1 = dur
      \<and> level st1 = level st \<and> raf st1
      \<and> level (scene_step st1 (AnimFrame now))
          = (if now < t + dur
             then level st + (to - level st) * easeInOutCubic ((now - t) / dur)
             else to)
      \<and> level (scene_step st1 (AnimFrame t)) = level st
      \<and> (t \<le> now \<longrightarrow>
            min (level st) to \<le> level (scene_step st1 (AnimFrame now))
            \<and> level (scene_step st1 (AnimFrame now)) \<le> max (level st) to)"
proof -
  define st where "st = scene_run (mount ph0 t0) evs"
  define to :: real where "to = (if ph = Draining then 0 else 1)"
  define dur :: real where "dur = (if ph = Draining then 500 else 650)"
  define st1 where "st1 = scene_step st (PhaseEffect ph t)"
  have inv: "levelRef st = level st"
    unfolding st_def by (rule levelRef_run[OF levelRef_mount])
  have dur: "0 < dur" by (simp add: dur_def)
  have lt: "(now - t) / dur < 1 \<longleftrightarrow> now < t + dur" for now :: real
    using dur by (simp add: field_simps)
  have f: "anim_from st1 = level st" "anim_to st1 = to" "anim_dur st1 = dur"
    "level st1 = level st" "raf st1" "anim_start st1 = t"
    using inv by (simp_all add: st1_def phaseEffect_def levelEffect_def to_def dur_def)
  have lev: "level (scene_step st1 (AnimFrame now))
          = (if now < t + dur
             then level st + (to - level st) * easeInOutCubic ((now - t) / dur)
             else to)" for now
    using f by (simp add: tick_level lt levelEffect_def)
  have start: "level (scene_step st1 (AnimFrame t)) = level st"
    unfolding lev using dur by (simp add: easeInOutCubic_def)
  have btw: "min (level st) to \<le> level (scene_step st1 (AnimFrame now))
            \<and> level (scene_step st1 (AnimFrame now)) \<le> max (level st) to" if "t \<le> now"
  proof (cases "now < t + dur")
    case True
    then have "0 \<le> (now - t) / dur" "(now - t) / dur \<le> 1" using that dur by simp_all
    then show ?thesis unfolding lev using True between ease_bounds by simp
  next
    case False
    then show ?thesis unfolding lev by simp
  qed
  show ?thesis
    unfolding Let_def st_def[symmetric] to_def[symmetric] dur_def[symmetric]
      st1_def[symmetric]
    using f lev start btw by blast
qed

theorem retarget_from_current_level_witness:
  "level (scene_run (mount Filling 0) [AnimFrame 325]) = 1/2
   \<and> (400::real) \<le> 650
   \<and> level (scene_step (scene_step (scene_run (mount Filling 0) [AnimFrame 325])
                (PhaseEffect Draining 400)) (AnimFrame 650)) = 1/4"
  using retarget_from_current_level[of Filling 0 "[AnimFrame 325]" Draining 400 650]
  by (simp add: Let_def scene_run_def mount_def phaseEffect_def levelEffect_def tick_def
      easeInOutCubic_def)

section \<open>Properties of LeafSystem\<close>

lemma spawnLeaf_length:
  "length (leaves (spawnLeaf m w h rnd st)) \<le> Suc (length (leaves st))"
  by (simp add: spawnLeaf_def Let_def)

lemma leafFrame_inv:
  assumes "leaf_inv m st"
  shows "leaf_inv m (leafFrame m se f st)"
proof (cases "\<not> f_enabled f \<or> \<not> f_ready f")
  case True
  with assms show ?thesis by (simp add: leafFrame_def)
next
  case False
  define st1 where "st1 = (if nextSpawnAt st = 0 then
                   let firstDelay = lerp 0.2 0.8 (rnd_firstDelay f);
                       st = st\<lparr>nextSpawnAt := f_now f + firstDelay\<rparr>
                   in if length (leaves st) = 0
                      then spawnLeaf m (f_w f) (f_h f) (rnd_forced f) st
                      else st
                 else st)"
  define st2 where "st2 = (if f_now f \<ge> nextSpawnAt st1 \<and> length (leaves st1) < m then
                   (spawnLeaf m (f_w f) (f_h f) (rnd_timed f) st1)
                     \<lparr>nextSpawnAt :=
                        f_now f + lerp (fst se) (snd se) (rnd_interval f)\<rparr>
                 else st1)"
  have l1: "length (leaves st1) \<le> max 1 m"
    using assms spawnLeaf_length[of m "f_w f" "f_h f" "rnd_forced f"
        "st\<lparr>nextSpawnAt := f_now f + lerp 0.2 0.8 (rnd_firstDelay f)\<rparr>"]
    by (auto simp: st1_def Let_def leaf_inv_def)
  have l2: "length (leaves st2) \<le> max 1 m"
    using l1 spawnLeaf_length[of m "f_w f" "f_h f" "rnd_timed f" st1]
    by (auto simp: st2_def)
  have "leafFrame m se f st =
     st2\<lparr>leaves :=
           filter (\<lambda>l. leaf_x l < f_w f / 2 + 0.8 \<and> leaf_y l > - f_h f / 2 - 0.8
                       \<and> leaf_y l < f_h f / 2 + 0.8)
             (map (moveLeaf (f_now f) (f_dt f)) (leaves st2)),
         meshCount :=
           min (length
                  (filter (\<lambda>l. leaf_x l < f_w f / 2 + 0.8 \<and> leaf_y l > - f_h f / 2 - 0.8
                               \<and> leaf_y l < f_h f / 2 + 0.8)
                     (map (moveLeaf (f_now f) (f_dt f)) (leaves st2)))) m\<rparr>"
    using False unfolding leafFrame_def Let_def st2_def st1_def by simp
  moreover have
    "length (filter P (map (moveLeaf (f_now f) (f_dt f)) (leaves st2))) \<le> max 1 m" for P
  proof -
    have "length (filter P (map (moveLeaf (f_now f) (f_dt f)) (leaves st2)))
          \<le> length (map (moveLeaf (f_now f) (f_dt f)) (leaves st2))"
      by (rule length_filter_le)
    also have "\<dots> = length (leaves st2)" by simp
    also note l2
    finally show ?thesis .
  qed
  ultimately show ?thesis by (simp add: leaf_inv_def)
qed

lemma leaf_step_inv: "leaf_inv m st \<Longrightarrow> leaf_inv m (leaf_step m se st ev)"
  by (cases ev) (simp_all add: leafFrame_inv, simp add: resetEffect_def leaf_inv_def)

lemma leaf_run_inv: "leaf_inv m st \<Longrightarrow> leaf_inv m (leaf_run m se st evs)"
  unfolding leaf_run_def
  by (induction evs arbitrary: st) (simp_all add: leaf_step_inv)

text \<open>
  C7.  After any sequence of frames and enable/disable effects from mount, with any
  random values, the number of instances drawn is at most \<open>maxLeaves\<close>, and the list
  of leaves has at most \<open>maxLeaves\<close> elements for every cap of at least one (with a cap
  of \<open>0\<close> the list holds at most the one leaf of the forced first spawn, which is not
  drawn).
\<close>

theorem leaves_within_cap:
  "let st = leaf_run maxLeaves spawnEvery (leaf_init maxLeaves) evs
   in meshCount st \<le> maxLeaves \<and> length (leaves st) \<le> max 1 maxLeaves
      \<and> (0 < maxLeaves \<longrightarrow> length (leaves st) \<le> maxLeaves)"
proof -
  have "leaf_inv maxLeaves (leaf_init maxLeaves)"
    by (simp add: leaf_inv_def leaf_init_def)
  then have "leaf_inv maxLeaves (leaf_run maxLeaves spawnEvery (leaf_init maxLeaves) evs)"
    by (rule leaf_run_inv)
  then show ?thesis unfolding Let_def leaf_inv_def by auto
qed


theorem leaves_within_cap_witness:
  "(0::nat) < 9
   \<and> length (leaves (leaf_run 9 (2.5, 6.5) (leaf_init 9)
                         [LeafFrame frame0, LeafFrame frame0])) \<le> 9
   \<and> length (leaves (leaf_run 9 (2.5, 6.5) (leaf_init 9) [LeafFrame frame0])) = 1"
proof -
  have "length (leaves (leaf_run 9 (2.5, 6.5) (leaf_init 9) [LeafFrame frame0])) = 1"
    by (simp add: leaf_run_def leafFrame_def leaf_init_def frame0_def spawnLeaf_def
        lerp_def Let_def moveLeaf_def)
  then show ?thesis
    using leaves_within_cap[of 9 "(2.5, 6.5)" "[LeafFrame frame0, LeafFrame frame0]"]
    by (simp add: Let_def)
qed

section \<open>Properties of WaterPlane\<close>

lemma smoothstep_range: "0 \<le> smoothstep a b x \<and> smoothstep a b x \<le> 1"
proof -
  define t where "t = clamp ((x - a) / (b - a)) 0 1"
  have t: "0 \<le> t" "t \<le> 1" by (simp_all add: t_def clamp_def)
  have s: "smoothstep a b x = t * t * (3 - 2 * t)"
    by (simp add: smoothstep_def t_def Let_def)
  have "0 \<le> t * t * (3 - 2 * t)" using t by simp
  moreover have "1 - t * t * (3 - 2 * t) = (1 - t) * (1 - t) * (1 + 2 * t)"
    by (simp add: algebra_simps)
  moreover have "0 \<le> (1 - t) * (1 - t) * (1 + 2 * t)" using t by simp
  ultimately show ?thesis unfolding s by linarith
qed

lemma water_alpha_eq:
  "snd (water_main U vUv)
     = baseAlpha (uLevel U) * smoothstep 0.98 0.45 (distance vUv (0.5, 0.5))"
  by (simp add: water_main_def Let_def)

lemma water_col_flat:
  assumes "uHasRipple U < 0.5" "uHasSceneTex U > 0.5"
  shows "\<exists>q. fst (water_main U (0.5, 0.5))
              = mix3 (uSceneTex U q) (uTint U) (0.25 + 0.35 * uLevel U)"
proof -
  have hl: "smoothstep (3 / 50) (11 / 50) 0 = 0" by (simp add: smoothstep_def clamp_def)
  have ed: "smoothstep (1 / 5) (3 / 4) 0 = 0" by (simp add: smoothstep_def clamp_def)
  have z: "add3 c (0, 0, 0) = c" for c by (cases c) (simp add: add3_def)
  have sc: "scale3 v 0 = (0, 0, 0)" for v by (cases v) (simp add: scale3_def)
  show ?thesis
    using assms
    by (simp add: water_main_def Let_def rippleGrad_def vscale_def vlength_def hl ed z sc
        distance_def tintMix_def vadd_def scale3_def) blast
qed

lemma distance_plane:
  assumes "0 \<le> x" "x \<le> 1" "0 \<le> y" "y \<le> 1"
  shows "distance (x, y) (0.5, 0.5) \<le> 0.715"
proof -
  have sq: "(u - 1/2)\<^sup>2 \<le> 1/4" if "0 \<le> u" "u \<le> 1" for u :: real
  proof -
    have "u * (u - 1) \<le> 0" using that by (simp add: mult_le_0_iff)
    then show ?thesis by (simp add: power2_eq_square algebra_simps)
  qed
  have "(x - 1/2)\<^sup>2 + (y - 1/2)\<^sup>2 \<le> (0.715::real)\<^sup>2"
    using sq[OF assms(1,2)] sq[OF assms(3,4)] by (simp add: power2_eq_square)
  then have "sqrt ((x - 1/2)\<^sup>2 + (y - 1/2)\<^sup>2) \<le> 0.715"
    by (intro real_le_lsqrt) simp_all
  then show ?thesis by (simp add: distance_def)
qed

lemma vignette_plane:
  assumes "d \<le> 0.715"
  shows "1 / 2 \<le> smoothstep 0.98 0.45 d"
proof -
  define t where "t = clamp ((d - 0.98) / (0.45 - 0.98)) 0 1"
  have t: "1 / 2 \<le> t" "t \<le> 1"
    using assms by (simp_all add: t_def clamp_def field_simps)
  have s: "smoothstep 0.98 0.45 d = t * t * (3 - 2 * t)"
    by (simp add: smoothstep_def t_def Let_def)
  have "t * t * (3 - 2 * t) - 1 / 2 = (t - 1 / 2) * (1 + 2 * t * (1 - t))"
    by (simp add: algebra_simps)
  moreover have "0 \<le> (t - 1 / 2) * (1 + 2 * t * (1 - t))"
    using t by (intro mult_nonneg_nonneg add_nonneg_nonneg) simp_all
  ultimately show ?thesis unfolding s by linarith
qed

lemma edge_vignette:
  "smoothstep 0.98 0.45 (distance (1, 1/2) (0.5, 0.5)) = 145152 / 148877"
proof -
  have "sqrt ((1/2)\<^sup>2) = (1/2::real)" by (simp only: real_sqrt_abs)
  then have d: "distance (1, 1/2) (0.5, 0.5) = 1/2" by (simp add: distance_def)
  show ?thesis unfolding d by (simp add: smoothstep_def clamp_def Let_def)
qed

text \<open>
  C9, as stated, fails in its last clause.  At level \<open>0\<close> the effect does not vanish at
  the edges: at the midpoint of the right edge the vignette is \<open>145152/148877\<close>, and the
  alpha is above \<open>0.058\<close>, against \<open>0.06\<close> at the centre.
\<close>

theorem level0_edge_alpha_counterexample:
  "uLevel (plain_uniforms 0) = 0
   \<and> snd (water_main (plain_uniforms 0) (1, 1/2)) = 0.06 * (145152 / 148877)
   \<and> 0.058 < snd (water_main (plain_uniforms 0) (1, 1/2))
   \<and> snd (water_main (plain_uniforms 0) (0.5, 0.5)) = 0.06"
proof -
  have c: "smoothstep 0.98 0.45 (distance (0.5, 0.5) (0.5, 0.5)) = 1"
    by (simp add: smoothstep_def clamp_def distance_def)
  show ?thesis
    unfolding water_alpha_eq edge_vignette c
    by (simp add: plain_uniforms_def baseAlpha_def)
qed

text \<open>
  C9, amended.  The alpha of a pixel is
  \<open>(0.06 + 0.48 * level) * vignette(distance from centre)\<close> with the vignette in
  \<open>[0, 1]\<close>; the opacity before the vignette and the weight of the tint in the blend are
  strictly increasing in the level, so the alpha of every pixel is non-decreasing in the
  level; with neither highlight nor edge term the colour is the blend of background and
  tint with weight \<open>0.25 + 0.35 * level\<close>.  On the plane (both coordinates in
  \<open>[0, 1]\<close>) the vignette is at least \<open>1/2\<close>, so at level \<open>0\<close> the alpha is low but does
  not vanish: it lies between \<open>0.03\<close> and \<open>0.06\<close> at every pixel.
\<close>

theorem water_alpha_and_tint:
  "snd (water_main U vUv)
     = (0.06 + 0.48 * uLevel U) * smoothstep 0.98 0.45 (distance vUv (0.5, 0.5))
   \<and> 0 \<le> smoothstep 0.98 0.45 (distance vUv (0.5, 0.5))
   \<and> smoothstep 0.98 0.45 (distance vUv (0.5, 0.5)) \<le> 1
   \<and> baseAlpha l = 0.06 + 0.48 * l \<and> tintMix l = 0.25 + 0.35 * l
   \<and> (l1 < l2 \<longrightarrow> baseAlpha l1 < baseAlpha l2 \<and> tintMix l1 < tintMix l2)
   \<and> (uLevel U \<le> uLevel U' \<longrightarrow> snd (water_main U vUv) \<le> snd (water_main U' vUv))
   \<and> (uHasRipple U < 0.5 \<and> uHasSceneTex U > 0.5 \<longrightarrow>
         (\<exists>q. fst (water_main U (0.5, 0.5))
                = mix3 (uSceneTex U q) (uTint U) (0.25 + 0.35 * uLevel U)))
   \<and> (uLevel U = 0 \<longrightarrow> 0 \<le> snd (water_main U vUv) \<and> snd (water_main U vUv) \<le> 0.06)
   \<and> (0 \<le> fst vUv \<and> fst vUv \<le> 1 \<and> 0 \<le> snd vUv \<and> snd vUv \<le> 1 \<longrightarrow>
         1 / 2 \<le> smoothstep 0.98 0.45 (distance vUv (0.5, 0.5))
         \<and> (uLevel U = 0 \<longrightarrow>
               0.03 \<le> snd (water_main U vUv) \<and> snd (water_main U vUv) \<le> 0.06))"
proof -
  define v where "v = smoothstep 0.98 0.45 (distance vUv (0.5, 0.5))"
  have v: "0 \<le> v" "v \<le> 1" using smoothstep_range by (simp_all add: v_def)
  have a: "snd (water_main W vUv) = (0.06 + 0.48 * uLevel W) * v" for W
    by (simp add: water_alpha_eq baseAlpha_def v_def)
  have m: "snd (water_main U vUv) \<le> snd (water_main U' vUv)" if "uLevel U \<le> uLevel U'"
    unfolding a using that v by (intro mult_right_mono) simp_all
  have z: "0 \<le> snd (water_main U vUv) \<and> snd (water_main U vUv) \<le> 0.06" if "uLevel U = 0"
    unfolding a using that v by simp
  have pl: "1 / 2 \<le> v"
    if "0 \<le> fst vUv \<and> fst vUv \<le> 1 \<and> 0 \<le> snd vUv \<and> snd vUv \<le> 1"
    unfolding v_def
    using that distance_plane[of "fst vUv" "snd vUv"] by (intro vignette_plane) simp
  have pz: "0.03 \<le> snd (water_main U vUv) \<and> snd (water_main U vUv) \<le> 0.06"
    if "0 \<le> fst vUv \<and> fst vUv \<le> 1 \<and> 0 \<le> snd vUv \<and> snd vUv \<le> 1" "uLevel U = 0"
    unfolding a using that(2) v pl[OF that(1)] by simp
  show ?thesis
    using a[of U] v m z pl pz water_col_flat[of U]
    unfolding v_def[symmetric] by (simp add: baseAlpha_def tintMix_def)
qed

theorem water_alpha_and_tint_witness:
  "(0::real) < 1 \<and> baseAlpha 0 < baseAlpha 1 \<and> tintMix 0 < tintMix 1
   \<and> uLevel (scene_uniforms 0) \<le> uLevel (scene_uniforms 1)
   \<and> uHasRipple (scene_uniforms 0) < 0.5 \<and> uHasSceneTex (scene_uniforms 0) > 0.5
   \<and> uLevel (scene_uniforms 0) = 0
   \<and> (0::real) \<le> fst (0.5::real, 0.5::real) \<and> fst (0.5::real, 0.5::real) \<le> 1
   \<and> snd (water_main (scene_uniforms 0) (0.5, 0.5)) = 0.06
   \<and> snd (water_main (scene_uniforms 1) (0.5, 0.5)) = 0.54
   \<and> snd (water_main (scene_uniforms 0) (0.5, 0.5))
       \<le> snd (water_main (scene_uniforms 1) (0.5, 0.5))
   \<and> 0.03 \<le> snd (water_main (scene_uniforms 0) (0.5, 0.5))
   \<and> fst (water_main (scene_uniforms 0) (0.5, 0.5))
       = mix3 (1 / 5, 2 / 5, 3 / 5) (0.17, 0.45, 1) 0.25"
proof -
  have s: "smoothstep 0.98 0.45 (distance (0.5, 0.5) (0.5, 0.5)) = 1"
    by (simp add: smoothstep_def clamp_def distance_def)
  show ?thesis
    using water_alpha_and_tint
            [of "scene_uniforms 0" "(0.5, 0.5)" 0 0 1 "scene_uniforms 1"]
          water_alpha_and_tint
            [of "scene_uniforms 1" "(0.5, 0.5)" 0 0 1 "scene_uniforms 1"]
    unfolding s
    by (simp add: scene_uniforms_def)
qed

end
